theory Spec2Isabelle
  imports Complex_Main
begin

section \<open>JavaScript numbers\<close>

text \<open>
  A JavaScript Number is a finite double, \<open>+Infinity\<close>, \<open>-Infinity\<close> or \<open>NaN\<close>.
  Finite values are idealised as reals: rounding, overflow and the sign of zero are not
  represented, so "within floating tolerance" in a statement about doubles reads as
  equality here. The non-finite values are kept, with the results ECMAScript gives them,
  because \<open>App.jsx\<close> passes whatever \<open>SunCalc.getPosition\<close> returns straight into
  \<open>Math.sin\<close> and \<open>Math.cos\<close>.
\<close>

datatype jsnum = Fin real | PInf | NInf | NaN

fun js_sgn :: "jsnum \<Rightarrow> real" where
  "js_sgn (Fin a) = sgn a"
| "js_sgn PInf = 1"
| "js_sgn NInf = - 1"
| "js_sgn NaN = 0"

fun js_neg :: "jsnum \<Rightarrow> jsnum" where
  "js_neg (Fin a) = Fin (- a)"
| "js_neg PInf = NInf"
| "js_neg NInf = PInf"
| "js_neg NaN = NaN"

fun js_add :: "jsnum \<Rightarrow> jsnum \<Rightarrow> jsnum" where
  "js_add (Fin a) (Fin b) = Fin (a + b)"
| "js_add NaN _ = NaN"
| "js_add _ NaN = NaN"
| "js_add PInf NInf = NaN"
| "js_add NInf PInf = NaN"
| "js_add PInf _ = PInf"
| "js_add _ PInf = PInf"
| "js_add NInf _ = NInf"
| "js_add _ NInf = NInf"

definition js_sub :: "jsnum \<Rightarrow> jsnum \<Rightarrow> jsnum" where
  "js_sub a b = js_add a (js_neg b)"

fun js_mul :: "jsnum \<Rightarrow> jsnum \<Rightarrow> jsnum" where
  "js_mul (Fin a) (Fin b) = Fin (a * b)"
| "js_mul NaN _ = NaN"
| "js_mul _ NaN = NaN"
| "js_mul a b =
     (let s = js_sgn a * js_sgn b
      in if s = 0 then NaN else if 0 < s then PInf else NInf)"

fun js_div :: "jsnum \<Rightarrow> jsnum \<Rightarrow> jsnum" where
  "js_div NaN _ = NaN"
| "js_div _ NaN = NaN"
| "js_div (Fin a) (Fin b) =
     (if b = 0 then (if a = 0 then NaN else if 0 < a then PInf else NInf)
      else Fin (a / b))"
| "js_div (Fin a) _ = Fin 0"
| "js_div PInf (Fin b) = (if b < 0 then NInf else PInf)"
| "js_div NInf (Fin b) = (if b < 0 then PInf else NInf)"
| "js_div _ _ = NaN"

fun js_lt :: "jsnum \<Rightarrow> jsnum \<Rightarrow> bool" where
  "js_lt (Fin a) (Fin b) = (a < b)"
| "js_lt NaN _ = False"
| "js_lt _ NaN = False"
| "js_lt _ NInf = False"
| "js_lt PInf _ = False"
| "js_lt _ _ = True"

definition js_gt :: "jsnum \<Rightarrow> jsnum \<Rightarrow> bool" where
  "js_gt a b = js_lt b a"

text \<open>\<open>a || b\<close> on numbers: \<open>0\<close> and \<open>NaN\<close> are falsy.\<close>

fun js_or :: "jsnum \<Rightarrow> jsnum \<Rightarrow> jsnum" where
  "js_or (Fin a) b = (if a = 0 then b else Fin a)"
| "js_or NaN b = b"
| "js_or a b = a"

subsection \<open>The \<open>Math\<close> object\<close>

definition Math_PI :: jsnum where
  "Math_PI = Fin pi"

fun Math_sin :: "jsnum \<Rightarrow> jsnum" where
  "Math_sin (Fin a) = Fin (sin a)"
| "Math_sin _ = NaN"

fun Math_cos :: "jsnum \<Rightarrow> jsnum" where
  "Math_cos (Fin a) = Fin (cos a)"
| "Math_cos _ = NaN"

fun Math_sqrt :: "jsnum \<Rightarrow> jsnum" where
  "Math_sqrt (Fin a) = (if a < 0 then NaN else Fin (sqrt a))"
| "Math_sqrt PInf = PInf"
| "Math_sqrt _ = NaN"

fun Math_max :: "jsnum \<Rightarrow> jsnum \<Rightarrow> jsnum" where
  "Math_max NaN _ = NaN"
| "Math_max _ NaN = NaN"
| "Math_max a b = (if js_lt a b then b else a)"

fun Math_min :: "jsnum \<Rightarrow> jsnum \<Rightarrow> jsnum" where
  "Math_min NaN _ = NaN"
| "Math_min _ NaN = NaN"
| "Math_min a b = (if js_lt b a then b else a)"

text \<open>\<open>Math.hypot(a, b)\<close>: an infinite argument wins over \<open>NaN\<close>.\<close>

fun Math_hypot :: "jsnum \<Rightarrow> jsnum \<Rightarrow> jsnum" where
  "Math_hypot (Fin a) (Fin b) = Fin (sqrt (a * a + b * b))"
| "Math_hypot PInf _ = PInf"
| "Math_hypot NInf _ = PInf"
| "Math_hypot _ PInf = PInf"
| "Math_hypot _ NInf = PInf"
| "Math_hypot _ _ = NaN"

text \<open>
  \<open>Math.atan2(y, x)\<close>, the angle of the point \<open>(x, y)\<close> in \<open>[-\<pi>, \<pi>]\<close>. With no
  signed zero, \<open>atan2(0, x)\<close> for negative \<open>x\<close> is \<open>\<pi>\<close> and \<open>atan2(0, 0)\<close> is \<open>0\<close>.
\<close>

definition atan2_real :: "real \<Rightarrow> real \<Rightarrow> real" where
  "atan2_real y x =
     (if 0 < x then arctan (y / x)
      else if x < 0 then (if y < 0 then arctan (y / x) - pi else arctan (y / x) + pi)
      else if 0 < y then pi / 2
      else if y < 0 then - (pi / 2)
      else 0)"

fun Math_atan2 :: "jsnum \<Rightarrow> jsnum \<Rightarrow> jsnum" where
  "Math_atan2 (Fin y) (Fin x) = Fin (atan2_real y x)"
| "Math_atan2 NaN _ = NaN"
| "Math_atan2 _ NaN = NaN"
| "Math_atan2 (Fin y) PInf = Fin 0"
| "Math_atan2 (Fin y) NInf = (if y < 0 then Fin (- pi) else Fin pi)"
| "Math_atan2 PInf (Fin x) = Fin (pi / 2)"
| "Math_atan2 NInf (Fin x) = Fin (- (pi / 2))"
| "Math_atan2 PInf PInf = Fin (pi / 4)"
| "Math_atan2 PInf NInf = Fin (3 * pi / 4)"
| "Math_atan2 NInf PInf = Fin (- (pi / 4))"
| "Math_atan2 NInf NInf = Fin (- (3 * pi / 4))"

section \<open>The parts of three.js that \<open>App.jsx\<close> computes with\<close>

text \<open>
  \<open>THREE.MathUtils.degToRad\<close> multiplies by \<open>Math.PI / 180\<close>;
  \<open>THREE.MathUtils.clamp(value, min, max)\<close> is \<open>Math.max(min, Math.min(max, value))\<close>.
\<close>

definition degToRad :: "jsnum \<Rightarrow> jsnum" where
  \<comment> \<open>Modelled from the spec: three.js is a dependency, not under src/; degrees to radians.\<close>
  "degToRad degrees = js_mul degrees (js_div Math_PI (Fin 180))"

definition clamp :: "jsnum \<Rightarrow> jsnum \<Rightarrow> jsnum \<Rightarrow> jsnum" where
  \<comment> \<open>Modelled from the spec: three.js is a dependency, not under src/; the value bounded
      to the interval from min to max.\<close>
  "clamp v lo hi = Math_max lo (Math_min hi v)"

record Vector3 =
  vx :: jsnum
  vy :: jsnum
  vz :: jsnum

definition vlength :: "Vector3 \<Rightarrow> jsnum" where
  "vlength v =
     Math_sqrt (js_add (js_add (js_mul (vx v) (vx v)) (js_mul (vy v) (vy v)))
                       (js_mul (vz v) (vz v)))"

definition multiplyScalar :: "Vector3 \<Rightarrow> jsnum \<Rightarrow> Vector3" where
  "multiplyScalar v s = \<lparr>vx = js_mul (vx v) s, vy = js_mul (vy v) s, vz = js_mul (vz v) s\<rparr>"

definition divideScalar :: "Vector3 \<Rightarrow> jsnum \<Rightarrow> Vector3" where
  "divideScalar v s = multiplyScalar v (js_div (Fin 1) s)"

definition normalize :: "Vector3 \<Rightarrow> Vector3" where
  \<comment> \<open>Modelled from the spec: three.js is a dependency, not under src/; the stored
      direction is the vector scaled to unit length. The library divides by
      \<open>this.length() || 1\<close>.\<close>
  "normalize v = divideScalar v (js_or (vlength v) (Fin 1))"

text \<open>
  The quaternion operations stay abstract: a record of the three library calls the frame
  callback makes, over any type of quaternions.
\<close>

record 'q three =
  setFromEuler :: "jsnum \<Rightarrow> jsnum \<Rightarrow> jsnum \<Rightarrow> 'q"
  multiply :: "'q \<Rightarrow> 'q \<Rightarrow> 'q"
  rotateTowards :: "'q \<Rightarrow> 'q \<Rightarrow> jsnum \<Rightarrow> 'q"

section \<open>\<open>SolarPanelModel\<close>\<close>

text \<open>
  The component's refs: \<open>panelRef.current\<close> holds the panel's quaternion once the model is
  mounted (\<open>None\<close> before), \<open>baseQuat\<close> the rest pose, \<open>sunDir\<close> the cached direction.
\<close>

record 'q panel =
  panelRef :: "'q option"
  baseQuat :: 'q
  sunDir :: Vector3

record limits =
  yawMin :: jsnum
  yawMax :: jsnum
  pitchMin :: jsnum
  pitchMax :: jsnum

definition LIMITS :: limits where
  "LIMITS = \<lparr>yawMin = degToRad (Fin (- 170)), yawMax = degToRad (Fin 170),
             pitchMin = degToRad (Fin (- 5)), pitchMax = degToRad (Fin 65)\<rparr>"

subsection \<open>The timer closure that caches the sun direction\<close>

definition sunDirection :: "jsnum \<Rightarrow> jsnum \<Rightarrow> Vector3" where
  "sunDirection azimuth altitude =
     (let x = js_mul (Math_sin azimuth) (Math_cos altitude);
          y = Math_sin altitude;
          z = js_mul (Math_cos azimuth) (Math_cos altitude)
      in normalize \<lparr>vx = x, vy = y, vz = z\<rparr>)"

definition updateSunDir :: "jsnum \<Rightarrow> jsnum \<Rightarrow> 'q panel \<Rightarrow> 'q panel" where
  \<comment> \<open>\<open>azimuth\<close> and \<open>altitude\<close> are what \<open>SunCalc.getPosition\<close> returned.\<close>
  "updateSunDir azimuth altitude st = st\<lparr>sunDir := sunDirection azimuth altitude\<rparr>"

subsection \<open>The frame callback\<close>

definition spinAngles :: "jsnum \<Rightarrow> jsnum \<times> jsnum" where
  \<comment> \<open>The \<open>(yaw, pitch)\<close> of the \<open>spin\<close> branch at elapsed time \<open>t\<close>.\<close>
  "spinAngles t =
     (let T = Fin 8;
          w = js_div (js_mul Math_PI (Fin 2)) T;
          pitchDegMin = Fin 8;
          pitchDegMax = Fin 55;
          s = js_div (js_add (Math_sin (js_mul t w)) (Fin 1)) (Fin 2);
          pitch = degToRad (js_add pitchDegMin (js_mul (js_sub pitchDegMax pitchDegMin) s));
          yaw = degToRad (js_mul (Math_sin (js_mul (js_mul t w) (Fin 0.35))) (Fin 30))
      in (yaw, pitch))"

definition yawTarget :: "Vector3 \<Rightarrow> jsnum" where
  "yawTarget dir = Math_atan2 (vx dir) (vz dir)"

definition pitchTarget :: "Vector3 \<Rightarrow> jsnum" where
  "pitchTarget dir = Math_atan2 (vy dir) (Math_hypot (vx dir) (vz dir))"

definition isNight :: "Vector3 \<Rightarrow> bool" where
  "isNight dir = js_lt (vy dir) (Fin 0)"

definition trackingAngles :: "Vector3 \<Rightarrow> jsnum \<times> jsnum" where
  \<comment> \<open>The clamped \<open>(yaw, pitch)\<close> of the tracking branch.\<close>
  "trackingAngles dir =
     (let yaw = clamp (yawTarget dir) (yawMin LIMITS) (yawMax LIMITS);
          pitch = (if isNight dir
                   then clamp (degToRad (Fin 5)) (pitchMin LIMITS) (pitchMax LIMITS)
                   else clamp (pitchTarget dir) (pitchMin LIMITS) (pitchMax LIMITS))
      in (yaw, pitch))"

text \<open>
  What one frame does to the panel's quaternion: nothing while the panel is not mounted,
  \<open>quaternion.copy(base * euler(pitch, yaw, 0))\<close> in the \<open>spin\<close> branch,
  \<open>quaternion.rotateTowards(base * euler(pitch, yaw, 0), step)\<close> otherwise.
\<close>

datatype frame_effect =
    NoPanel
  | Copy (e_pitch: jsnum) (e_yaw: jsnum)
  | RotateTowards (e_pitch: jsnum) (e_yaw: jsnum) (e_step: jsnum)

definition frameEffect :: "string \<Rightarrow> jsnum \<Rightarrow> 'q panel \<Rightarrow> frame_effect" where
  "frameEffect mode t st =
     (case panelRef st of
        None \<Rightarrow> NoPanel
      | Some cur \<Rightarrow>
          if mode = ''spin''
          then (case spinAngles t of (yaw, pitch) \<Rightarrow> Copy pitch yaw)
          else (case trackingAngles (sunDir st) of (yaw, pitch) \<Rightarrow>
                  RotateTowards pitch yaw (Fin 0.02)))"

definition applyEffect :: "'q three \<Rightarrow> frame_effect \<Rightarrow> 'q panel \<Rightarrow> 'q panel" where
  "applyEffect L eff st =
     (case eff of
        NoPanel \<Rightarrow> st
      | Copy pitch yaw \<Rightarrow>
          st\<lparr>panelRef := Some (multiply L (baseQuat st) (setFromEuler L pitch yaw (Fin 0)))\<rparr>
      | RotateTowards pitch yaw step \<Rightarrow>
          (case panelRef st of
             None \<Rightarrow> st
           | Some cur \<Rightarrow>
               st\<lparr>panelRef := Some (rotateTowards L cur
                     (multiply L (baseQuat st) (setFromEuler L pitch yaw (Fin 0))) step)\<rparr>))"

definition useFrame :: "'q three \<Rightarrow> string \<Rightarrow> jsnum \<Rightarrow> 'q panel \<Rightarrow> 'q panel" where
  "useFrame L mode t st = applyEffect L (frameEffect mode t st) st"

section \<open>\<open>App\<close>: the lighting closure\<close>

record lighting =
  skyPos :: "jsnum list"
  bgColor :: string
  envPreset :: string
  sunLightIntensity :: jsnum
  hemiIntensity :: jsnum

definition initialLighting :: lighting where
  \<comment> \<open>The initial values of the \<open>useState\<close> hooks.\<close>
  "initialLighting =
     \<lparr>skyPos = [Fin 10, Fin 8, Fin (- 6)], bgColor = ''#0b0f1a'', envPreset = ''sunset'',
      sunLightIntensity = Fin 1.8, hemiIntensity = Fin 0.35\<rparr>"

definition isDay :: "jsnum \<Rightarrow> bool" where
  "isDay altitude = js_gt altitude (Fin 0.05)"

definition updateLighting :: "jsnum \<Rightarrow> jsnum \<Rightarrow> lighting \<Rightarrow> lighting" where
  "updateLighting azimuth altitude st =
     (let r = Fin 100;
          x = js_mul (js_mul (Math_sin azimuth) (Math_cos altitude)) r;
          y = js_mul (Math_sin altitude) r;
          z = js_mul (js_mul (Math_cos azimuth) (Math_cos altitude)) r;
          st1 = st\<lparr>skyPos := [x, y, z]\<rparr>
      in if isDay altitude
         then st1\<lparr>bgColor := ''#b8d0ff'', envPreset := ''sunset'',
                  sunLightIntensity := Fin 1.8, hemiIntensity := Fin 0.35\<rparr>
         else st1\<lparr>bgColor := ''#05070d'', envPreset := ''night'',
                  sunLightIntensity := Fin 0.5, hemiIntensity := Fin 0.15\<rparr>)"

section \<open>Vocabulary of the statements\<close>

text \<open>\<open>Number.isFinite\<close>, and membership of a closed interval (false for non-finite values).\<close>

fun is_finite :: "jsnum \<Rightarrow> bool" where
  "is_finite (Fin a) = True"
| "is_finite _ = False"

fun in_range :: "jsnum \<Rightarrow> jsnum \<Rightarrow> jsnum \<Rightarrow> bool" where
  "in_range (Fin v) (Fin lo) (Fin hi) = (lo \<le> v \<and> v \<le> hi)"
| "in_range _ _ _ = False"

definition deg :: "real \<Rightarrow> real" where
  \<comment> \<open>An angle given in degrees, in radians.\<close>
  "deg d = d * (pi / 180)"

text \<open>
  The demo trajectory in the words of the specification: with \<open>\<omega> = 2\<pi>/8\<close>, the pitch is
  \<open>8\<degree> + (55\<degree> - 8\<degree>)\<cdot>(sin(\<omega>t)+1)/2\<close> and the yaw is \<open>30\<degree>\<cdot>sin(0.35\<cdot>\<omega>t)\<close>.
\<close>

definition demo_omega :: real where
  "demo_omega = 2 * pi / 8"

definition demo_pitch :: "real \<Rightarrow> real" where
  "demo_pitch t = deg 8 + (deg 55 - deg 8) * ((sin (demo_omega * t) + 1) / 2)"

definition demo_yaw :: "real \<Rightarrow> real" where
  "demo_yaw t = deg 30 * sin (0.35 * (demo_omega * t))"

text \<open>
  A concrete quaternion type and the component's refs as \<open>SolarPanelModel\<close> creates them:
  \<open>new THREE.Quaternion()\<close> is the identity, \<open>new THREE.Vector3(0, 1, 0)\<close> points up. The
  mount effect sets \<open>panelRef.current\<close> and copies its quaternion into \<open>baseQuat\<close>.
\<close>

record Quaternion =
  qx :: jsnum
  qy :: jsnum
  qz :: jsnum
  qw :: jsnum

definition identityQ :: Quaternion where
  "identityQ = \<lparr>qx = Fin 0, qy = Fin 0, qz = Fin 0, qw = Fin 1\<rparr>"

definition initialPanel :: "Quaternion panel" where
  "initialPanel =
     \<lparr>panelRef = None, baseQuat = identityQ, sunDir = \<lparr>vx = Fin 0, vy = Fin 1, vz = Fin 0\<rparr>\<rparr>"

definition mount :: "'q \<Rightarrow> 'q panel \<Rightarrow> 'q panel" where
  "mount q st = st\<lparr>panelRef := Some q, baseQuat := q\<rparr>"

section \<open>The slew step\<close>








section \<open>The sun direction\<close>

lemma sun_vector_unit:
  "(sin a * cos h) * (sin a * cos h) + sin h * sin h + (cos a * cos h) * (cos a * cos h)
     = (1::real)"
proof -
  have sa: "sin a * sin a + cos a * cos a = 1"
    using sin_cos_squared_add3 [of a] by (simp add: add.commute)
  have "(sin a * cos h) * (sin a * cos h) + sin h * sin h + (cos a * cos h) * (cos a * cos h)
          = (sin a * sin a + cos a * cos a) * (cos h * cos h) + sin h * sin h"
    by (simp only: algebra_simps)
  also have "\<dots> = cos h * cos h + sin h * sin h"
    by (simp only: sa mult_1)
  finally show ?thesis
    by simp
qed

lemma sunDirection_finite:
  "sunDirection (Fin a) (Fin h)
     = \<lparr>vx = Fin (sin a * cos h), vy = Fin (sin h), vz = Fin (cos a * cos h)\<rparr>"
  by (simp add: sunDirection_def normalize_def divideScalar_def multiplyScalar_def
      vlength_def sun_vector_unit)

text \<open>
  C1. For every azimuth \<open>a\<close> and altitude \<open>h\<close>, the timer closure stores the vector
  \<open>(sin a \<cdot> cos h, sin h, cos a \<cdot> cos h)\<close>, the stored vector has length 1, and nothing but
  the stored direction changes.
\<close>

theorem sun_direction_unit:
  "updateSunDir (Fin a) (Fin h) st
     = st\<lparr>sunDir := \<lparr>vx = Fin (sin a * cos h), vy = Fin (sin h), vz = Fin (cos a * cos h)\<rparr>\<rparr>
   \<and> vlength (sunDir (updateSunDir (Fin a) (Fin h) st)) = Fin 1"
  by (simp add: updateSunDir_def sunDirection_finite vlength_def sun_vector_unit)

section \<open>Constants\<close>

lemma sqrt3_le: "sqrt 3 \<le> (17321 / 10000 :: real)"
  by (rule real_le_lsqrt) (simp_all add: power2_eq_square)

lemma sin_pi12_sq: "(sin (pi / 12))\<^sup>2 = (1 - sqrt 3 / 2) / 2"
proof -
  have "cos (2 * (pi / 12)) = 1 - 2 * (sin (pi / 12))\<^sup>2"
    by (rule cos_double_sin)
  moreover have "2 * (pi / 12) = pi / 6" by simp
  ultimately have "sqrt 3 / 2 = 1 - 2 * (sin (pi / 12))\<^sup>2"
    using cos_30 by simp
  then show ?thesis by (simp add: field_simps)
qed

lemma pi_gt_305: "61 / 20 < pi"
proof (rule ccontr)
  assume "\<not> 61 / 20 < pi"
  then have le: "pi \<le> 61 / 20" by simp
  have s0: "0 \<le> sin (pi / 12)"
    by (rule sin_ge_zero) simp_all
  have s1: "sin (pi / 12) \<le> pi / 12"
    by (rule sin_x_le_x) simp
  have "(sin (pi / 12))\<^sup>2 \<le> (pi / 12)\<^sup>2"
    using s1 s0 by (rule power_mono)
  also have "\<dots> \<le> ((61 / 20) / 12)\<^sup>2"
    by (rule power_mono) (use le in simp_all)
  finally have "(1 - sqrt 3 / 2) / 2 \<le> ((61 / 20) / 12 :: real)\<^sup>2"
    by (simp only: sin_pi12_sq)
  then show False
    using sqrt3_le by (simp add: power2_eq_square)
qed

lemma degToRad_Fin: "degToRad (Fin d) = Fin (deg d)"
  by (simp add: degToRad_def Math_PI_def deg_def)

lemma clamp_Fin: "clamp (Fin v) (Fin lo) (Fin hi) = Fin (max lo (min hi v))"
  by (simp add: clamp_def max_def min_def)

lemma clamp_NaN: "clamp NaN (Fin lo) (Fin hi) = NaN"
  by (simp add: clamp_def)

lemma LIMITS_Fin:
  "yawMin LIMITS = Fin (deg (- 170))" "yawMax LIMITS = Fin (deg 170)"
  "pitchMin LIMITS = Fin (deg (- 5))" "pitchMax LIMITS = Fin (deg 65)"
  by (simp_all add: LIMITS_def degToRad_Fin)

lemma deg_mono: "a \<le> b \<Longrightarrow> deg a \<le> deg b"
  by (simp add: deg_def)

lemma stow_clamped:
  "clamp (degToRad (Fin 5)) (pitchMin LIMITS) (pitchMax LIMITS) = Fin (deg 5)"
proof -
  have "deg (- 5) \<le> deg 5" "deg 5 \<le> deg 65"
    by (rule deg_mono, simp)+
  then show ?thesis
    by (simp add: LIMITS_Fin degToRad_Fin clamp_Fin)
qed

section \<open>The tracking target\<close>

text \<open>
  C3. For every sun direction (finite components), the clamped tracking target lies within
  \<open>[yawMin, yawMax] \<times> [pitchMin, pitchMax]\<close>: the yaw is clamped in every case, the pitch
  whether it is the stow angle or the geometric target. With the sun overhead, direction
  \<open>(0, 1, 0)\<close>, where \<open>hypot(x, z) = 0\<close>, the target is yaw 0 and the maximum pitch.
\<close>

theorem tracking_target_within_limits:
  "in_range (fst (trackingAngles \<lparr>vx = Fin x, vy = Fin y, vz = Fin z\<rparr>))
      (yawMin LIMITS) (yawMax LIMITS)
   \<and> in_range (snd (trackingAngles \<lparr>vx = Fin x, vy = Fin y, vz = Fin z\<rparr>))
      (pitchMin LIMITS) (pitchMax LIMITS)
   \<and> trackingAngles \<lparr>vx = Fin 0, vy = Fin 1, vz = Fin 0\<rparr> = (Fin 0, Fin (deg 65))"
proof -
  have y: "deg (- 170) \<le> deg 170" and p: "deg (- 5) \<le> deg 65"
    by (rule deg_mono, simp)+
  have p5: "deg (- 5) \<le> deg 5" "deg 5 \<le> deg 65"
    by (rule deg_mono, simp)+
  have general: "in_range (fst (trackingAngles \<lparr>vx = Fin x, vy = Fin y, vz = Fin z\<rparr>))
      (yawMin LIMITS) (yawMax LIMITS)
   \<and> in_range (snd (trackingAngles \<lparr>vx = Fin x, vy = Fin y, vz = Fin z\<rparr>))
      (pitchMin LIMITS) (pitchMax LIMITS)"
    using y p p5
    by (simp add: trackingAngles_def Let_def yawTarget_def pitchTarget_def LIMITS_Fin
        degToRad_Fin clamp_Fin)
  have "deg 65 \<le> pi / 2" "deg (- 170) \<le> 0" "0 \<le> deg 170"
    by (simp_all add: deg_def)
  then have overhead: "trackingAngles \<lparr>vx = Fin 0, vy = Fin 1, vz = Fin 0\<rparr>
      = (Fin 0, Fin (deg 65))"
    using p
    by (simp add: trackingAngles_def Let_def yawTarget_def pitchTarget_def LIMITS_Fin
        isNight_def clamp_Fin atan2_real_def)
  from general overhead show ?thesis
    by (simp only: simp_thms)
qed

section \<open>The demo trajectory\<close>

lemma spinAngles_Fin:
  "spinAngles (Fin t) =
     (Fin (deg (sin (t * (pi * 2 / 8) * 0.35) * 30)),
      Fin (deg (8 + (55 - 8) * ((sin (t * (pi * 2 / 8)) + 1) / 2))))"
  by (simp add: spinAngles_def Let_def Math_PI_def js_sub_def degToRad_Fin)

lemma deg_bounds: "lo \<le> d \<Longrightarrow> d \<le> hi \<Longrightarrow> in_range (Fin (deg d)) (Fin (deg lo)) (Fin (deg hi))"
  by (simp add: deg_mono)

lemma yaw_deg_bounds: "- 1 \<le> s \<Longrightarrow> s \<le> 1 \<Longrightarrow> - 30 \<le> s * 30 \<and> s * 30 \<le> (30::real)"
  by simp

lemma pitch_deg_bounds:
  "- 1 \<le> s \<Longrightarrow> s \<le> 1 \<Longrightarrow>
     8 \<le> 8 + (55 - 8) * ((s + 1) / 2) \<and> 8 + (55 - 8) * ((s + 1) / 2) \<le> (55::real)"
  by simp

text \<open>
  C10. For every elapsed time \<open>t\<close>, the \<open>(yaw, pitch)\<close> of the \<open>spin\<close> branch lies within the
  mechanical limits \<open>[-170\<degree>, 170\<degree>] \<times> [-5\<degree>, 65\<degree>]\<close> although that branch never clamps:
  the yaw stays in \<open>[-30\<degree>, 30\<degree>]\<close> and the pitch in \<open>[8\<degree>, 55\<degree>]\<close>.
\<close>

theorem demo_within_limits:
  "in_range (fst (spinAngles (Fin t))) (yawMin LIMITS) (yawMax LIMITS)
   \<and> in_range (snd (spinAngles (Fin t))) (pitchMin LIMITS) (pitchMax LIMITS)
   \<and> in_range (fst (spinAngles (Fin t))) (Fin (deg (- 30))) (Fin (deg 30))
   \<and> in_range (snd (spinAngles (Fin t))) (Fin (deg 8)) (Fin (deg 55))"
proof -
  let ?y = "sin (t * (pi * 2 / 8) * 0.35) * 30"
  let ?p = "8 + (55 - 8) * ((sin (t * (pi * 2 / 8)) + 1) / 2)"
  have y: "- 30 \<le> ?y" "?y \<le> 30"
    using yaw_deg_bounds [OF sin_ge_minus_one sin_le_one] by blast+
  have p: "8 \<le> ?p" "?p \<le> 55"
    using pitch_deg_bounds [OF sin_ge_minus_one sin_le_one] by blast+
  have "in_range (Fin (deg ?y)) (Fin (deg (- 170))) (Fin (deg 170))"
    using y by (intro deg_bounds) linarith+
  moreover have "in_range (Fin (deg ?p)) (Fin (deg (- 5))) (Fin (deg 65))"
    using p by (intro deg_bounds) linarith+
  moreover have "in_range (Fin (deg ?y)) (Fin (deg (- 30))) (Fin (deg 30))"
    using y by (intro deg_bounds)
  moreover have "in_range (Fin (deg ?p)) (Fin (deg 8)) (Fin (deg 55))"
    using p by (intro deg_bounds)
  ultimately show ?thesis
    by (simp only: spinAngles_Fin LIMITS_Fin fst_conv snd_conv simp_thms)
qed

section \<open>The solar-noon scenario\<close>

lemma noon_direction:
  "sunDirection (Fin 0) (Fin 1.1) = \<lparr>vx = Fin 0, vy = Fin (sin 1.1), vz = Fin (cos 1.1)\<rparr>"
  by (simp add: sunDirection_finite)

lemma noon_sin_cos: "0 < sin (1.1::real)" "0 < cos (1.1::real)"
proof -
  have "(1.1::real) < pi / 2" using pi_gt_305 by simp
  then show "0 < sin (1.1::real)" "0 < cos (1.1::real)"
    by (simp_all add: sin_gt_zero2 cos_gt_zero)
qed

lemma noon_arctan: "arctan (sin 1.1 / cos 1.1) = (1.1::real)"
proof -
  have "(1.1::real) < pi / 2" using pi_gt_305 by simp
  moreover have "- (pi / 2) < (1.1::real)"
    using pi_gt_zero by (simp del: pi_gt_zero)
  ultimately have "arctan (tan 1.1) = (1.1::real)"
    by (simp add: arctan_tan)
  then show ?thesis by (simp add: tan_def)
qed

lemma noon_angles:
  "trackingAngles (sunDirection (Fin 0) (Fin 1.1)) = (Fin 0, Fin 1.1)"
proof -
  have c: "0 < cos (1.1::real)" and s: "0 < sin (1.1::real)"
    by (rule noon_sin_cos)+
  have h: "sqrt (cos 1.1 * cos 1.1) = cos (1.1::real)"
    using c by simp
  have lim: "deg (- 170) \<le> 0" "0 \<le> deg 170" "deg (- 5) \<le> 1.1" "1.1 \<le> deg 65"
    using pi_gt_305 by (simp_all add: deg_def)
  have night: "\<not> sin (1.1::real) < 0"
    using s by simp
  show ?thesis
    using lim night c
    by (simp add: noon_direction trackingAngles_def Let_def yawTarget_def pitchTarget_def
        isNight_def LIMITS_Fin clamp_Fin atan2_real_def h noon_arctan)
qed

text \<open>
  C9, as amended. For altitude 1.1 rad and azimuth 0 the tracking branch takes the
  non-night path, the clamped yaw is 0, and the clamped pitch is the altitude itself,
  1.1 rad, which lies within \<open>[-5\<degree>, 65\<degree>]\<close> and is left unchanged by the clamp.
\<close>

theorem solar_noon_scenario:
  "\<not> isNight (sunDirection (Fin 0) (Fin 1.1))
   \<and> trackingAngles (sunDirection (Fin 0) (Fin 1.1)) = (Fin 0, Fin 1.1)
   \<and> in_range (Fin 0) (yawMin LIMITS) (yawMax LIMITS)
   \<and> in_range (Fin 1.1) (pitchMin LIMITS) (pitchMax LIMITS)"
proof -
  have "\<not> sin (1.1::real) < 0"
    using noon_sin_cos(1) by simp
  then have "\<not> isNight (sunDirection (Fin 0) (Fin 1.1))"
    by (simp add: noon_direction isNight_def)
  moreover have "deg (- 170) \<le> 0" "0 \<le> deg 170" "deg (- 5) \<le> 1.1" "1.1 \<le> deg 65"
    using pi_gt_305 by (simp_all add: deg_def)
  ultimately show ?thesis
    by (simp add: noon_angles LIMITS_Fin)
qed

text \<open>
  C9, as stated, fails: the clamped pitch is not the complement \<open>\<pi>/2 - 1.1\<close> of the altitude
  clamped into \<open>[-5\<degree>, 65\<degree>]\<close>.
\<close>

theorem solar_noon_complement_counterexample:
  "snd (trackingAngles (sunDirection (Fin 0) (Fin 1.1)))
     \<noteq> clamp (Fin (pi / 2 - 1.1)) (pitchMin LIMITS) (pitchMax LIMITS)"
proof -
  have "deg (- 5) \<le> pi / 2 - 1.1" "pi / 2 - 1.1 \<le> deg 65"
    using pi_gt_305 pi_less_4 by (simp_all add: deg_def)
  then have "clamp (Fin (pi / 2 - 1.1)) (pitchMin LIMITS) (pitchMax LIMITS) = Fin (pi / 2 - 1.1)"
    by (simp add: LIMITS_Fin clamp_Fin)
  moreover have "pi / 2 - 1.1 \<noteq> (1.1::real)"
    using pi_less_4 by simp
  ultimately show ?thesis
    by (simp add: noon_angles)
qed

section \<open>Night stow\<close>

lemma trackingAngles_night:
  "js_lt (vy dir) (Fin 0) \<Longrightarrow>
     trackingAngles dir
       = (clamp (Math_atan2 (vx dir) (vz dir)) (yawMin LIMITS) (yawMax LIMITS), Fin (deg 5))"
  by (simp add: trackingAngles_def Let_def isNight_def yawTarget_def stow_clamped)

lemma trackingAngles_day:
  "\<not> js_lt (vy dir) (Fin 0) \<Longrightarrow>
     trackingAngles dir
       = (clamp (Math_atan2 (vx dir) (vz dir)) (yawMin LIMITS) (yawMax LIMITS),
          clamp (Math_atan2 (vy dir) (Math_hypot (vx dir) (vz dir)))
            (pitchMin LIMITS) (pitchMax LIMITS))"
  by (simp add: trackingAngles_def Let_def isNight_def yawTarget_def pitchTarget_def)

lemma sin_neg_altitude: "- (pi / 2) \<le> h \<Longrightarrow> h < 0 \<Longrightarrow> sin h < (0::real)"
proof -
  assume "- (pi / 2) \<le> h" "h < 0"
  then have "0 < - h" "- h < pi"
    using pi_gt_zero by linarith+
  then have "0 < sin (- h)"
    by (rule sin_gt_zero)
  then show ?thesis by simp
qed

text \<open>
  C2. For every sun direction with negative \<open>y\<close> the pitch of the tracking target is the fixed
  5\<degree> stow angle, whatever the other components, while the yaw is still the clamped
  \<open>atan2(dir.x, dir.z)\<close>; when \<open>dir.y < 0\<close> does not hold, the pitch is the clamped
  \<open>atan2(dir.y, hypot(dir.x, dir.z))\<close>. Every altitude \<open>h\<close> below the horizon,
  \<open>-\<pi>/2 \<le> h < 0\<close>, gives such a direction, for every azimuth.
\<close>

theorem night_pitch_is_stow:
  "(js_lt (vy dir) (Fin 0) \<longrightarrow>
      trackingAngles dir
        = (clamp (Math_atan2 (vx dir) (vz dir)) (yawMin LIMITS) (yawMax LIMITS), Fin (deg 5)))
   \<and> (\<not> js_lt (vy dir) (Fin 0) \<longrightarrow>
      trackingAngles dir
        = (clamp (Math_atan2 (vx dir) (vz dir)) (yawMin LIMITS) (yawMax LIMITS),
           clamp (Math_atan2 (vy dir) (Math_hypot (vx dir) (vz dir)))
             (pitchMin LIMITS) (pitchMax LIMITS)))
   \<and> (- (pi / 2) \<le> h \<and> h < 0 \<longrightarrow>
      js_lt (vy (sunDirection (Fin a) (Fin h))) (Fin 0)
      \<and> snd (trackingAngles (sunDirection (Fin a) (Fin h))) = Fin (deg 5))"
proof (intro conjI impI)
  assume "js_lt (vy dir) (Fin 0)"
  then show "trackingAngles dir
        = (clamp (Math_atan2 (vx dir) (vz dir)) (yawMin LIMITS) (yawMax LIMITS), Fin (deg 5))"
    by (rule trackingAngles_night)
next
  assume "\<not> js_lt (vy dir) (Fin 0)"
  then show "trackingAngles dir
        = (clamp (Math_atan2 (vx dir) (vz dir)) (yawMin LIMITS) (yawMax LIMITS),
           clamp (Math_atan2 (vy dir) (Math_hypot (vx dir) (vz dir)))
             (pitchMin LIMITS) (pitchMax LIMITS))"
    by (rule trackingAngles_day)
next
  assume h: "- (pi / 2) \<le> h \<and> h < 0"
  then have "sin h < 0"
    by (simp add: sin_neg_altitude)
  then show n: "js_lt (vy (sunDirection (Fin a) (Fin h))) (Fin 0)"
    by (simp add: sunDirection_finite)
  show "snd (trackingAngles (sunDirection (Fin a) (Fin h))) = Fin (deg 5)"
    by (simp add: trackingAngles_night [OF n])
qed

theorem night_pitch_is_stow_witness:
  "js_lt (vy \<lparr>vx = Fin 1, vy = Fin (- 1), vz = Fin 0\<rparr>) (Fin 0)
   \<and> trackingAngles \<lparr>vx = Fin 1, vy = Fin (- 1), vz = Fin 0\<rparr> = (Fin (pi / 2), Fin (deg 5))
   \<and> \<not> js_lt (vy \<lparr>vx = Fin 0, vy = Fin 1, vz = Fin 1\<rparr>) (Fin 0)
   \<and> trackingAngles \<lparr>vx = Fin 0, vy = Fin 1, vz = Fin 1\<rparr> = (Fin 0, Fin (pi / 4))
   \<and> - (pi / 2) \<le> - 1 \<and> (- 1 :: real) < 0
   \<and> snd (trackingAngles (sunDirection (Fin 0) (Fin (- 1)))) = Fin (deg 5)"
proof -
  have lim: "deg (- 170) \<le> pi / 2" "pi / 2 \<le> deg 170" "deg (- 170) \<le> 0" "0 \<le> deg 170"
    "deg (- 5) \<le> pi / 4" "pi / 4 \<le> deg 65"
    by (simp_all add: deg_def field_simps)
  have h: "- (pi / 2) \<le> - 1" "(- 1 :: real) < 0"
    using pi_ge_two by simp_all
  show ?thesis
    using night_pitch_is_stow [of "\<lparr>vx = Fin 1, vy = Fin (- 1), vz = Fin 0\<rparr>" "- 1" 0]
      night_pitch_is_stow [of "\<lparr>vx = Fin 0, vy = Fin 1, vz = Fin 1\<rparr>" "- 1" 0] lim h
    by (simp add: LIMITS_Fin clamp_Fin atan2_real_def arctan_one)
qed

section \<open>Periods of the demo trajectory\<close>

lemma spinAngles_demo: "spinAngles (Fin t) = (Fin (demo_yaw t), Fin (demo_pitch t))"
proof -
  have "deg (sin (t * (pi * 2 / 8) * 0.35) * 30) = demo_yaw t"
    by (simp add: demo_yaw_def demo_omega_def deg_def algebra_simps)
  moreover have "deg (8 + (55 - 8) * ((sin (t * (pi * 2 / 8)) + 1) / 2)) = demo_pitch t"
    by (simp add: demo_pitch_def demo_omega_def deg_def algebra_simps)
  ultimately show ?thesis
    by (simp only: spinAngles_Fin)
qed

lemma demo_pitch_period: "demo_pitch (t + 8) = demo_pitch t"
proof -
  have "demo_omega * (t + 8) = demo_omega * t + 2 * pi"
    by (simp add: demo_omega_def algebra_simps)
  then show ?thesis
    by (simp only: demo_pitch_def sin_periodic)
qed

lemma demo_yaw_period: "demo_yaw (t + 160 / 7) = demo_yaw t"
proof -
  have "0.35 * (demo_omega * (t + 160 / 7)) = 0.35 * (demo_omega * t) + 2 * pi"
    by (simp add: demo_omega_def algebra_simps)
  then show ?thesis
    by (simp only: demo_yaw_def sin_periodic)
qed

lemma sin_plus_even_pi: "sin (x + 2 * real n * pi) = sin x"
  by (simp add: sin_add)

lemma demo_common_period: "demo_yaw (t + 160) = demo_yaw t" "demo_pitch (t + 160) = demo_pitch t"
proof -
  have "0.35 * (demo_omega * (t + 160)) = 0.35 * (demo_omega * t) + 2 * real 7 * pi"
    by (simp add: demo_omega_def algebra_simps)
  then show "demo_yaw (t + 160) = demo_yaw t"
    by (simp only: demo_yaw_def sin_plus_even_pi)
  have "demo_omega * (t + 160) = demo_omega * t + 2 * real 20 * pi"
    by (simp add: demo_omega_def algebra_simps)
  then show "demo_pitch (t + 160) = demo_pitch t"
    by (simp only: demo_pitch_def sin_plus_even_pi)
qed

text \<open>
  C6, as amended. The pitch of the demo trajectory has period 8 s, the yaw, which runs at
  0.35 times the pitch frequency, has period \<open>8 / 0.35 = 160/7\<close> s, and the
  \<open>(yaw, pitch)\<close> pair has period 160 s.
\<close>

theorem demo_periods:
  "snd (spinAngles (Fin (t + 8))) = snd (spinAngles (Fin t))
   \<and> fst (spinAngles (Fin (t + 160 / 7))) = fst (spinAngles (Fin t))
   \<and> spinAngles (Fin (t + 160)) = spinAngles (Fin t)"
  by (simp add: spinAngles_demo demo_pitch_period demo_yaw_period demo_common_period)

lemma demo_yaw_0_8: "demo_yaw 0 = 0" "0 < demo_yaw 8"
proof -
  show "demo_yaw 0 = 0"
    by (simp add: demo_yaw_def)
  have eq: "0.35 * (demo_omega * 8) = 7 * pi / 10"
    by (simp add: demo_omega_def)
  have "0 < 7 * pi / 10" "7 * pi / 10 < pi"
    by simp_all
  then have "0 < sin (7 * pi / 10)"
    by (rule sin_gt_zero)
  then have "0 < sin (0.35 * (demo_omega * 8))"
    by (simp only: eq)
  moreover have "0 < deg 30"
    by (simp add: deg_def)
  ultimately show "0 < demo_yaw 8"
    unfolding demo_yaw_def by (rule mult_pos_pos [rotated])
qed

text \<open>
  C6, as stated, fails: the pair at \<open>t = 0\<close> differs from the pair at \<open>t = 8\<close>, where the
  yaw is \<open>30\<degree>\<cdot>sin(0.7\<pi>) > 0\<close>.
\<close>

theorem demo_period_8_counterexample: "spinAngles (Fin 0) \<noteq> spinAngles (Fin 8)"
  using demo_yaw_0_8 by (simp add: spinAngles_demo)

section \<open>The demo trajectory is applied as it is\<close>

lemma demo_pitch_bounds: "deg 8 \<le> demo_pitch t" "demo_pitch t \<le> deg 55"
proof -
  let ?s = "sin (demo_omega * t)"
  have eq: "demo_pitch t = deg (8 + (55 - 8) * ((?s + 1) / 2))"
    by (simp add: demo_pitch_def deg_def algebra_simps)
  have b: "8 \<le> 8 + (55 - 8) * ((?s + 1) / 2)" "8 + (55 - 8) * ((?s + 1) / 2) \<le> 55"
    using pitch_deg_bounds [OF sin_ge_minus_one sin_le_one] by blast+
  show "deg 8 \<le> demo_pitch t"
    unfolding eq using b(1) by (rule deg_mono)
  show "demo_pitch t \<le> deg 55"
    unfolding eq using b(2) by (rule deg_mono)
qed

lemma demo_yaw_bounds: "- deg 30 \<le> demo_yaw t" "demo_yaw t \<le> deg 30"
proof -
  let ?s = "sin (0.35 * (demo_omega * t))"
  have eq: "demo_yaw t = deg (?s * 30)"
    by (simp add: demo_yaw_def deg_def algebra_simps)
  have m: "- deg 30 = deg (- 30)"
    by (simp add: deg_def)
  have b: "- 30 \<le> ?s * 30" "?s * 30 \<le> 30"
    using yaw_deg_bounds [OF sin_ge_minus_one sin_le_one] by blast+
  show "- deg 30 \<le> demo_yaw t"
    unfolding eq m using b(1) by (rule deg_mono)
  show "demo_yaw t \<le> deg 30"
    unfolding eq using b(2) by (rule deg_mono)
qed

lemma frameEffect_spin:
  "frameEffect ''spin'' (Fin t) (st\<lparr>panelRef := Some q\<rparr>)
     = Copy (Fin (demo_pitch t)) (Fin (demo_yaw t))"
  by (simp add: frameEffect_def spinAngles_demo)

text \<open>
  C7. For every elapsed time \<open>t\<close> in demo mode the pitch is
  \<open>8\<degree> + (55\<degree> - 8\<degree>)\<cdot>(sin(\<omega>t)+1)/2\<close> with \<open>\<omega> = 2\<pi>/8\<close>, within \<open>[8\<degree>, 55\<degree>]\<close>, the yaw is
  \<open>30\<degree>\<cdot>sin(0.35\<cdot>\<omega>t)\<close>, within \<open>\<plusminus>30\<degree>\<close>, and the frame copies \<open>base * euler(pitch, yaw, 0)\<close>
  into the panel's quaternion: the result does not depend on the current quaternion and
  \<open>rotateTowards\<close> is not called.
\<close>

theorem demo_applied_directly:
  "spinAngles (Fin t) = (Fin (demo_yaw t), Fin (demo_pitch t))
   \<and> deg 8 \<le> demo_pitch t \<and> demo_pitch t \<le> deg 55
   \<and> - deg 30 \<le> demo_yaw t \<and> demo_yaw t \<le> deg 30
   \<and> frameEffect ''spin'' (Fin t) (st\<lparr>panelRef := Some q\<rparr>)
        = Copy (Fin (demo_pitch t)) (Fin (demo_yaw t))
   \<and> useFrame L ''spin'' (Fin t) (st\<lparr>panelRef := Some q\<rparr>)
        = st\<lparr>panelRef := Some (multiply L (baseQuat st)
                 (setFromEuler L (Fin (demo_pitch t)) (Fin (demo_yaw t)) (Fin 0)))\<rparr>"
proof -
  have "useFrame L ''spin'' (Fin t) (st\<lparr>panelRef := Some q\<rparr>)
        = st\<lparr>panelRef := Some (multiply L (baseQuat st)
                 (setFromEuler L (Fin (demo_pitch t)) (Fin (demo_yaw t)) (Fin 0)))\<rparr>"
    by (simp add: useFrame_def frameEffect_spin applyEffect_def)
  then show ?thesis
    using demo_pitch_bounds [of t] demo_yaw_bounds [of t]
    by (simp only: spinAngles_demo frameEffect_spin simp_thms)
qed

section \<open>Lighting\<close>

lemma isDay_Fin: "isDay (Fin h) = (0.05 < h)"
  by (simp add: isDay_def js_gt_def)

text \<open>
  C8, as amended. For every altitude \<open>h\<close> the lighting closure classifies daytime exactly
  when \<open>h > 0.05\<close> and sets one of two fixed presets (day: background \<open>#b8d0ff\<close>, sun
  intensity 1.8, ambient 0.35; night: background \<open>#05070d\<close>, sun intensity 0.5, ambient
  0.15), with nothing in between; the classification is monotonic in the altitude and goes
  from night to day between any \<open>h1 \<le> 0.05 < h2\<close>.
\<close>

theorem day_classification:
  "isDay (Fin h) = (0.05 < h)
   \<and> updateLighting (Fin a) (Fin h) st
       = (if 0.05 < h
          then \<lparr>skyPos = [Fin (sin a * cos h * 100), Fin (sin h * 100), Fin (cos a * cos h * 100)],
                bgColor = ''#b8d0ff'', envPreset = ''sunset'',
                sunLightIntensity = Fin 1.8, hemiIntensity = Fin 0.35\<rparr>
          else \<lparr>skyPos = [Fin (sin a * cos h * 100), Fin (sin h * 100), Fin (cos a * cos h * 100)],
                bgColor = ''#05070d'', envPreset = ''night'',
                sunLightIntensity = Fin 0.5, hemiIntensity = Fin 0.15\<rparr>)
   \<and> (h1 \<le> 0.05 \<and> 0.05 < h2 \<longrightarrow> \<not> isDay (Fin h1) \<and> isDay (Fin h2))
   \<and> (isDay (Fin h1) \<and> h1 \<le> h2 \<longrightarrow> isDay (Fin h2))"
  by (simp add: isDay_Fin updateLighting_def Let_def)

theorem day_classification_witness:
  "\<not> isDay (Fin 0.05) \<and> isDay (Fin 0.06)
   \<and> bgColor (updateLighting (Fin 0) (Fin 0.05) initialLighting) = ''#05070d''
   \<and> bgColor (updateLighting (Fin 0) (Fin 0.06) initialLighting) = ''#b8d0ff''
   \<and> isDay (Fin 1)"
  using day_classification [of "0.05" 0 initialLighting "0.05" "0.06"]
    day_classification [of "0.06" 0 initialLighting "0.06" 1]
  by simp

text \<open>
  C8, as stated, fails at the boundary: with \<open>h1 = 0 < 0.05 \<le> h2 = 0.05\<close> both altitudes
  are classified night, so there is no flip between them.
\<close>

theorem day_boundary_counterexample:
  "(0::real) < 0.05 \<and> (0.05::real) \<le> 0.05 \<and> \<not> isDay (Fin 0) \<and> \<not> isDay (Fin 0.05)"
  by (simp add: isDay_Fin)

section \<open>Non-finite angles\<close>

lemma sunDirection_nonfinite:
  "\<not> is_finite az \<or> \<not> is_finite alt \<Longrightarrow>
     vx (sunDirection az alt) = NaN \<and> vz (sunDirection az alt) = NaN"
  by (cases az; cases alt)
     (simp_all add: sunDirection_def Let_def normalize_def divideScalar_def multiplyScalar_def
        vlength_def)

lemma trackingAngles_yaw_NaN:
  "vx dir = NaN \<Longrightarrow> fst (trackingAngles dir) = NaN"
  by (simp add: trackingAngles_def Let_def yawTarget_def LIMITS_Fin clamp_NaN)

lemma frameEffect_tracking:
  "mode \<noteq> ''spin'' \<Longrightarrow>
     frameEffect mode t (st\<lparr>panelRef := Some q\<rparr>)
       = RotateTowards (snd (trackingAngles (sunDir st))) (fst (trackingAngles (sunDir st)))
           (Fin 0.02)"
  by (simp add: frameEffect_def split: prod.split)

lemma useFrame_tracking:
  "mode \<noteq> ''spin'' \<Longrightarrow>
     useFrame L mode t (st\<lparr>panelRef := Some q\<rparr>)
       = st\<lparr>panelRef := Some (rotateTowards L q
             (multiply L (baseQuat st)
                (setFromEuler L (snd (trackingAngles (sunDir st)))
                   (fst (trackingAngles (sunDir st))) (Fin 0)))
             (Fin 0.02))\<rparr>"
  by (simp add: useFrame_def frameEffect_tracking applyEffect_def)

lemma trackingAngles_finite:
  "is_finite (fst (trackingAngles \<lparr>vx = Fin x, vy = Fin y, vz = Fin z\<rparr>))
   \<and> is_finite (snd (trackingAngles \<lparr>vx = Fin x, vy = Fin y, vz = Fin z\<rparr>))"
  by (simp add: trackingAngles_def Let_def yawTarget_def pitchTarget_def LIMITS_Fin
      degToRad_Fin clamp_Fin)

text \<open>
  C5, as amended. When the sun-position source yields a non-finite azimuth or altitude,
  nothing is withheld: the timer closure overwrites the stored direction, whose \<open>x\<close>
  component becomes \<open>NaN\<close>, the yaw of the tracking target is \<open>NaN\<close>, and every frame in
  tracking mode on a mounted panel still calls \<open>rotateTowards\<close>, with a target built from
  that yaw. Finite angles always give a finite target.
\<close>

theorem nonfinite_angles_not_withheld:
  "(\<not> is_finite az \<or> \<not> is_finite alt \<longrightarrow>
      vx (sunDir (updateSunDir az alt st)) = NaN
      \<and> fst (trackingAngles (sunDir (updateSunDir az alt st))) = NaN
      \<and> (mode \<noteq> ''spin'' \<longrightarrow>
           frameEffect mode t (updateSunDir az alt (st\<lparr>panelRef := Some q\<rparr>))
             = RotateTowards (snd (trackingAngles (sunDirection az alt))) NaN (Fin 0.02)
           \<and> useFrame L mode t (updateSunDir az alt (st\<lparr>panelRef := Some q\<rparr>))
             = st\<lparr>sunDir := sunDirection az alt,
                  panelRef := Some (rotateTowards L q
                    (multiply L (baseQuat st)
                       (setFromEuler L (snd (trackingAngles (sunDirection az alt))) NaN (Fin 0)))
                    (Fin 0.02))\<rparr>))
   \<and> is_finite (fst (trackingAngles (sunDirection (Fin a) (Fin h))))
   \<and> is_finite (snd (trackingAngles (sunDirection (Fin a) (Fin h))))"
proof (intro conjI impI)
  assume nf: "\<not> is_finite az \<or> \<not> is_finite alt"
  then have x: "vx (sunDirection az alt) = NaN"
    by (simp add: sunDirection_nonfinite)
  then show "vx (sunDir (updateSunDir az alt st)) = NaN"
    by (simp add: updateSunDir_def)
  from x have yaw: "fst (trackingAngles (sunDirection az alt)) = NaN"
    by (rule trackingAngles_yaw_NaN)
  then show "fst (trackingAngles (sunDir (updateSunDir az alt st))) = NaN"
    by (simp add: updateSunDir_def)
  assume m: "mode \<noteq> ''spin''"
  have upd: "updateSunDir az alt (st\<lparr>panelRef := Some q\<rparr>)
      = (st\<lparr>sunDir := sunDirection az alt\<rparr>)\<lparr>panelRef := Some q\<rparr>"
    by (simp add: updateSunDir_def)
  show "frameEffect mode t (updateSunDir az alt (st\<lparr>panelRef := Some q\<rparr>))
      = RotateTowards (snd (trackingAngles (sunDirection az alt))) NaN (Fin 0.02)"
    unfolding upd by (simp add: frameEffect_tracking [OF m] yaw)
  show "useFrame L mode t (updateSunDir az alt (st\<lparr>panelRef := Some q\<rparr>))
      = st\<lparr>sunDir := sunDirection az alt,
           panelRef := Some (rotateTowards L q
             (multiply L (baseQuat st)
                (setFromEuler L (snd (trackingAngles (sunDirection az alt))) NaN (Fin 0)))
             (Fin 0.02))\<rparr>"
    unfolding upd by (simp add: useFrame_tracking [OF m] yaw)
next
  show "is_finite (fst (trackingAngles (sunDirection (Fin a) (Fin h))))"
    by (simp add: sunDirection_finite trackingAngles_finite)
  show "is_finite (snd (trackingAngles (sunDirection (Fin a) (Fin h))))"
    by (simp add: sunDirection_finite trackingAngles_finite)
qed

theorem nonfinite_angles_not_withheld_witness:
  "\<not> is_finite NaN
   \<and> ''sun'' \<noteq> ''spin''
   \<and> vx (sunDir (updateSunDir NaN (Fin 0) initialPanel)) = NaN
   \<and> (\<exists>p. frameEffect ''sun'' (Fin 0) (updateSunDir NaN (Fin 0) (initialPanel\<lparr>panelRef := Some identityQ\<rparr>))
        = RotateTowards p NaN (Fin 0.02))"
  using nonfinite_angles_not_withheld [of NaN "Fin 0" initialPanel "''sun''" "Fin 0" identityQ]
  by simp

text \<open>
  C5, as stated, fails: after a cycle in which the source returns \<open>NaN\<close> for the azimuth,
  the stored direction is no longer the last valid one and the next tracking frame issues
  \<open>rotateTowards\<close> with \<open>NaN\<close> pitch and yaw.
\<close>

theorem nan_propagates_counterexample:
  "sunDir (updateSunDir NaN (Fin 0) (mount identityQ initialPanel))
     = \<lparr>vx = NaN, vy = Fin 0, vz = NaN\<rparr>
   \<and> sunDir (updateSunDir NaN (Fin 0) (mount identityQ initialPanel))
     \<noteq> sunDir (mount identityQ initialPanel)
   \<and> frameEffect ''sun'' (Fin 0) (updateSunDir NaN (Fin 0) (mount identityQ initialPanel))
     = RotateTowards NaN NaN (Fin 0.02)"
proof -
  have d: "sunDirection NaN (Fin 0) = \<lparr>vx = NaN, vy = Fin 0, vz = NaN\<rparr>"
    by (simp add: sunDirection_def Let_def normalize_def divideScalar_def multiplyScalar_def
        vlength_def)
  have t: "trackingAngles \<lparr>vx = NaN, vy = Fin 0, vz = NaN\<rparr> = (NaN, NaN)"
    by (simp add: trackingAngles_def Let_def yawTarget_def pitchTarget_def isNight_def
        LIMITS_Fin clamp_NaN)
  show ?thesis
    by (simp add: updateSunDir_def mount_def initialPanel_def d t frameEffect_def)
qed

section \<open>Properties of the slew step\<close>


















end
